theory Spec2Isabelle
  imports Main
begin

section \<open>Data model\<close>

text \<open>
  The persisted store is a set of relational tables. A table is the list of its rows and
  the primary key of a row is its position, so a key names at most one row; \<open>save()\<close> on
  a loaded row overwrites that position and \<open>objects.create\<close> appends. Nothing in the
  sources deletes a row. Time is a number of seconds.
\<close>

type_synonym time = int

record User =
  username :: string
  email :: string
  password :: string
  first_name :: string
  last_name :: string
  firebase_uid :: \<open>string option\<close>
  is_active :: bool
  email_verified :: bool

text \<open>
  Modelled from the spec: the model classes \<open>EmailVerificationToken\<close> and
  \<open>PasswordResetToken\<close> are not declared in \<open>models.py\<close>. The columns are the ones
  \<open>utils.py\<close> reads and writes (\<open>user\<close>, \<open>code\<close>, \<open>token\<close>, \<open>expires_at\<close>, \<open>is_used\<close>) and
  the creation time the specification lists. \<open>send_verification_email\<close> fills \<open>code\<close> and
  never \<open>token\<close>, whereas \<open>verify_email_token\<close> filters on \<open>token\<close>; the two are therefore
  distinct columns, and \<open>token\<close> may hold no value.

  \<open>User\<close> is declared in \<open>models.py\<close>. Its \<open>email_verified\<close> is the attribute that
  \<open>verify_email_token\<close> sets on the user object it returns; \<open>models.py\<close> declares no such
  column, so \<open>save()\<close> does not write it and in a row of the table it is always false.
\<close>

record EmailVerificationToken =
  ev_user :: nat
  ev_code :: string
  ev_token :: \<open>string option\<close>
  ev_created_at :: time
  ev_expires_at :: time
  ev_is_used :: bool

record PasswordResetToken =
  pr_user :: nat
  pr_token :: string
  pr_created_at :: time
  pr_expires_at :: time
  pr_is_used :: bool

record db =
  users :: \<open>User list\<close>
  email_verification_tokens :: \<open>EmailVerificationToken list\<close>
  password_reset_tokens :: \<open>PasswordResetToken list\<close>
  stdout :: \<open>string list\<close>

record settings =
  DEFAULT_FROM_EMAIL :: string
  FRONTEND_URL :: \<open>string option\<close>

record email_message =
  subject :: string
  message :: string
  from_email :: string
  recipient_list :: \<open>string list\<close>
  html_message :: string

text \<open>
  The exceptions the sources raise or let through. A \<open>ValidationError\<close> carries the
  messages of each field, as \<open>serializer.errors\<close> presents them.
\<close>

type_synonym field_errors = \<open>(string \<times> string list) list\<close>

datatype error =
    DoesNotExist
  | MultipleObjectsReturned
  | RelatedObjectDoesNotExist
  | IntegrityError
  | SendMailError string
  | ValidationError field_errors
  | KeyError string

section \<open>Library functions the sources call\<close>

text \<open>
  \<open>Model.objects.get(**filter)\<close>: the single row that passes the filter; no row raises
  \<open>DoesNotExist\<close>, several raise \<open>MultipleObjectsReturned\<close>.
\<close>

definition objects_filter :: \<open>('r \<Rightarrow> bool) \<Rightarrow> 'r list \<Rightarrow> nat list\<close> where
  \<open>objects_filter p tbl = filter (\<lambda>i. p (tbl ! i)) [0..<length tbl]\<close>

definition objects_get :: \<open>('r \<Rightarrow> bool) \<Rightarrow> 'r list \<Rightarrow> error + nat\<close> where
  \<open>objects_get p tbl =
     (case objects_filter p tbl of
        [] \<Rightarrow> Inl DoesNotExist
      | [i] \<Rightarrow> Inr i
      | _ \<Rightarrow> Inl MultipleObjectsReturned)\<close>

text \<open>\<open>timedelta(minutes=m)\<close> and \<open>timedelta(hours=h)\<close>, in seconds.\<close>

definition timedelta_minutes :: \<open>int \<Rightarrow> time\<close> where
  \<open>timedelta_minutes m = 60 * m\<close>

definition timedelta_hours :: \<open>int \<Rightarrow> time\<close> where
  \<open>timedelta_hours h = 3600 * h\<close>

text \<open>
  \<open>random.randint(a, b)\<close> returns an integer \<open>N\<close> with \<open>a \<le> N \<le> b\<close>; the entropy it
  consumes is the argument \<open>r\<close>.
\<close>

definition randint :: \<open>int \<Rightarrow> int \<Rightarrow> nat \<Rightarrow> int\<close> where
  \<open>randint a b r = a + int (r mod nat (b - a + 1))\<close>

text \<open>\<open>str(n)\<close> of a Python integer: its decimal digits, with a sign when negative.\<close>

definition digit_char :: \<open>nat \<Rightarrow> char\<close> where
  \<open>digit_char d = ''0123456789'' ! d\<close>

fun str_nat :: \<open>nat \<Rightarrow> string\<close> where
  \<open>str_nat n = (if n < 10 then [digit_char n] else str_nat (n div 10) @ [digit_char (n mod 10)])\<close>

declare str_nat.simps [simp del]

definition str :: \<open>int \<Rightarrow> string\<close> where
  \<open>str n = (if n < 0 then CHR ''-'' # str_nat (nat (- n)) else str_nat (nat n))\<close>

text \<open>\<open>int(s)\<close> on a string of decimal digits, and \<open>s.isdigit()\<close>.\<close>

definition isdigit :: \<open>string \<Rightarrow> bool\<close> where
  \<open>isdigit s = (s \<noteq> [] \<and> list_all (\<lambda>c. (48::nat) \<le> of_char c \<and> of_char c \<le> (57::nat)) s)\<close>

definition int_of_digits :: \<open>string \<Rightarrow> int\<close> where
  \<open>int_of_digits s = foldl (\<lambda>acc c. 10 * acc + (int (of_char c) - 48)) 0 s\<close>

text \<open>
  \<open>s.replace(old, new)\<close>: every non-overlapping occurrence of \<open>old\<close>, from the left. With
  an empty \<open>old\<close> Python inserts \<open>new\<close> before every character and at the end.
\<close>

function replace :: \<open>string \<Rightarrow> string \<Rightarrow> string \<Rightarrow> string\<close> where
  \<open>replace old new s =
     (if old = [] then new @ concat (map (\<lambda>c. c # new) s)
      else if s = [] then []
      else if take (length old) s = old then new @ replace old new (drop (length old) s)
      else hd s # replace old new (tl s))\<close>
  by pat_completeness auto
termination
  by (relation \<open>measure (\<lambda>(old, new, s). length s)\<close>) auto

declare replace.simps [simp del]

definition nl :: string where
  \<open>nl = [CHR 0x0A]\<close>

section \<open>Verification-token issuer (utils.py)\<close>

definition verification_message :: \<open>User \<Rightarrow> string \<Rightarrow> string\<close> where
  \<open>verification_message user code =
     nl @
     ''    Hi '' @ username user @ '','' @ nl @
     ''    '' @ nl @
     ''    Thank you for registering with LearnBox!'' @ nl @
     ''    '' @ nl @
     ''    Your email verification code is: '' @ code @ nl @
     ''    '' @ nl @
     ''    This code will expire in 15 minutes.'' @ nl @
     ''    '' @ nl @
     ''    If you didn't create an account, please ignore this email.'' @ nl @
     ''    '' @ nl @
     ''    Best regards,'' @ nl @
     ''    LearnBox Team'' @ nl @
     ''    ''\<close>

definition verification_html_message :: \<open>User \<Rightarrow> string \<Rightarrow> string\<close> where
  \<open>verification_html_message user code =
     nl @
     ''    <html>'' @ nl @
     ''        <body>'' @ nl @
     ''            <h2>Hi '' @ username user @ '',</h2>'' @ nl @
     ''            <p>Thank you for registering with LearnBox!</p>'' @ nl @
     ''            <p>Your email verification code is:</p>'' @ nl @
     ''            <div style="background-color: #f0f0f0; padding: 20px; text-align: center; '' @ nl @
     ''                        font-size: 32px; font-weight: bold; letter-spacing: 8px; '' @ nl @
     ''                        border-radius: 8px; margin: 20px 0;">'' @ nl @
     ''                '' @ code @ nl @
     ''            </div>'' @ nl @
     ''            <p><small>This code will expire in 15 minutes.</small></p>'' @ nl @
     ''            <p>If you didn't create an account, please ignore this email.</p>'' @ nl @
     ''            <br>'' @ nl @
     ''            <p>Best regards,<br>LearnBox Team</p>'' @ nl @
     ''        </body>'' @ nl @
     ''    </html>'' @ nl @
     ''    ''\<close>

definition password_reset_message :: \<open>User \<Rightarrow> string \<Rightarrow> string\<close> where
  \<open>password_reset_message user reset_link =
     nl @
     ''    Hi '' @ username user @ '','' @ nl @
     ''    '' @ nl @
     ''    We received a request to reset your password for your LearnBox account.'' @ nl @
     ''    '' @ nl @
     ''    Please click the link below to reset your password:'' @ nl @
     ''    '' @ reset_link @ nl @
     ''    '' @ nl @
     ''    This link will expire in 1 hour.'' @ nl @
     ''    '' @ nl @
     ''    If you didn't request a password reset, please ignore this email or contact support if you have concerns.'' @ nl @
     ''    '' @ nl @
     ''    Best regards,'' @ nl @
     ''    LearnBox Team'' @ nl @
     ''    ''\<close>

definition password_reset_html_message :: \<open>User \<Rightarrow> string \<Rightarrow> string\<close> where
  \<open>password_reset_html_message user reset_link =
     nl @
     ''    <html>'' @ nl @
     ''        <body>'' @ nl @
     ''            <h2>Hi '' @ username user @ '',</h2>'' @ nl @
     ''            <p>We received a request to reset your password for your LearnBox account.</p>'' @ nl @
     ''            <p>Please click the button below to reset your password:</p>'' @ nl @
     ''            <p>'' @ nl @
     ''                <a href="'' @ reset_link @ ''" '' @ nl @
     ''                   style="background-color: #2196F3; color: white; padding: 14px 20px; '' @ nl @
     ''                          text-decoration: none; border-radius: 4px; display: inline-block;">'' @ nl @
     ''                    Reset Password'' @ nl @
     ''                </a>'' @ nl @
     ''            </p>'' @ nl @
     ''            <p>Or copy and paste this link in your browser:</p>'' @ nl @
     ''            <p>'' @ reset_link @ ''</p>'' @ nl @
     ''            <p><small>This link will expire in 1 hour.</small></p>'' @ nl @
     ''            <p>If you didn't request a password reset, please ignore this email or contact support if you have concerns.</p>'' @ nl @
     ''            <br>'' @ nl @
     ''            <p>Best regards,<br>LearnBox Team</p>'' @ nl @
     ''        </body>'' @ nl @
     ''    </html>'' @ nl @
     ''    ''\<close>

text \<open>
  The environment of a call: the clock reading \<open>now\<close> of \<open>timezone.now()\<close>, the mail
  transport \<open>send_mail\<close> (\<open>None\<close> when the message is handed over, \<open>Some e\<close> when it raises
  with text \<open>e\<close>; \<open>fail_silently=False\<close>), the settings, and the random draw. A model
  instance is its primary key with its column values. \<open>token_default\<close> is the value the
  column \<open>token\<close> of a new \<open>EmailVerificationToken\<close> takes, since \<open>create\<close> is not given one.
\<close>

definition verification_mail :: \<open>settings \<Rightarrow> User \<Rightarrow> string \<Rightarrow> email_message\<close> where
  \<open>verification_mail conf user code =
     \<lparr>subject = ''Your Verification Code - LearnBox'',
      message = verification_message user code,
      from_email = DEFAULT_FROM_EMAIL conf,
      recipient_list = [email user],
      html_message = verification_html_message user code\<rparr>\<close>

definition send_verification_email ::
  \<open>settings \<Rightarrow> (email_message \<Rightarrow> string option) \<Rightarrow> time \<Rightarrow> nat \<Rightarrow> string option \<Rightarrow>
   db \<Rightarrow> nat \<times> User \<Rightarrow> (error + nat \<times> EmailVerificationToken) \<times> db\<close> where
  \<open>send_verification_email conf send_mail now r token_default s usr =
     (let user = snd usr;
          code = str (randint 100000 999999 r);
          verification_token =
            \<lparr>ev_user = fst usr, ev_code = code, ev_token = token_default,
             ev_created_at = now,
             ev_expires_at = now + timedelta_minutes 15, ev_is_used = False\<rparr>;
          pk = length (email_verification_tokens s);
          s1 = s\<lparr>email_verification_tokens := email_verification_tokens s @ [verification_token]\<rparr>
      in case send_mail (verification_mail conf user code) of
           Some e \<Rightarrow>
             (Inl (SendMailError e),
              s1\<lparr>stdout := stdout s1 @ [''Error sending verification email: '' @ e]\<rparr>)
         | None \<Rightarrow> (Inr (pk, verification_token), s1))\<close>

text \<open>
  \<open>request\<close> is \<open>None\<close> or the value of \<open>request.build_absolute_uri('/')\<close>; \<open>token\<close> is the
  value of \<open>str(uuid.uuid4())\<close>.
\<close>

definition reset_link_of :: \<open>settings \<Rightarrow> string option \<Rightarrow> string \<Rightarrow> string\<close> where
  \<open>reset_link_of conf request token =
     (case request of
        Some uri \<Rightarrow> replace ''/api/'' [] uri @ ''reset-password?token='' @ token
      | None \<Rightarrow>
          (case FRONTEND_URL conf of Some u \<Rightarrow> u | None \<Rightarrow> ''http://localhost:5173'')
          @ ''/reset-password?token='' @ token)\<close>

definition password_reset_mail :: \<open>settings \<Rightarrow> User \<Rightarrow> string \<Rightarrow> email_message\<close> where
  \<open>password_reset_mail conf user reset_link =
     \<lparr>subject = ''Password Reset Request - LearnBox'',
      message = password_reset_message user reset_link,
      from_email = DEFAULT_FROM_EMAIL conf,
      recipient_list = [email user],
      html_message = password_reset_html_message user reset_link\<rparr>\<close>

definition send_password_reset_email ::
  \<open>settings \<Rightarrow> (email_message \<Rightarrow> string option) \<Rightarrow> time \<Rightarrow> string \<Rightarrow> string option \<Rightarrow>
   db \<Rightarrow> nat \<times> User \<Rightarrow> (error + nat \<times> PasswordResetToken) \<times> db\<close> where
  \<open>send_password_reset_email conf send_mail now token request s usr =
     (let user = snd usr;
          reset_token =
            \<lparr>pr_user = fst usr, pr_token = token, pr_created_at = now,
             pr_expires_at = now + timedelta_hours 1, pr_is_used = False\<rparr>;
          pk = length (password_reset_tokens s);
          s1 = s\<lparr>password_reset_tokens := password_reset_tokens s @ [reset_token]\<rparr>;
          reset_link = reset_link_of conf request token
      in case send_mail (password_reset_mail conf user reset_link) of
           Some e \<Rightarrow>
             (Inl (SendMailError e),
              s1\<lparr>stdout := stdout s1 @ [''Error sending password reset email: '' @ e]\<rparr>)
         | None \<Rightarrow> (Inr (pk, reset_token), s1))\<close>

section \<open>Token validator (utils.py)\<close>

text \<open>
  Modelled from the spec: the method \<open>is_valid()\<close> of the two token classes is not in the
  sources. The specification gives it: a token is valid iff \<open>now < expires_at\<close> and
  \<open>used == false\<close>, where \<open>now\<close> is the clock reading of the call.
\<close>

definition ev_is_valid :: \<open>time \<Rightarrow> EmailVerificationToken \<Rightarrow> bool\<close> where
  \<open>ev_is_valid now t = (now < ev_expires_at t \<and> \<not> ev_is_used t)\<close>

definition pr_is_valid :: \<open>time \<Rightarrow> PasswordResetToken \<Rightarrow> bool\<close> where
  \<open>pr_is_valid now t = (now < pr_expires_at t \<and> \<not> pr_is_used t)\<close>

text \<open>
  Both functions return the tuple \<open>(success, message, object or None)\<close>. Only
  \<open>DoesNotExist\<close> is caught; any other exception leaves the function. The related user
  of a token is read through its foreign key, which raises when no such row exists.
\<close>

text \<open>
  \<open>user.save()\<close> writes the columns that \<open>models.py\<close> declares. \<open>email_verified\<close> is not
  one of them: the row keeps the value it had.
\<close>

definition User_save :: \<open>db \<Rightarrow> nat \<Rightarrow> User \<Rightarrow> db\<close> where
  \<open>User_save s pk obj =
     s\<lparr>users := (users s)[pk := obj\<lparr>email_verified := email_verified (users s ! pk)\<rparr>]\<rparr>\<close>

definition verify_email_token ::
  \<open>time \<Rightarrow> db \<Rightarrow> string \<Rightarrow> (error + bool \<times> string \<times> User option) \<times> db\<close> where
  \<open>verify_email_token now s token =
     (case objects_get (\<lambda>t. ev_token t = Some token) (email_verification_tokens s) of
        Inl DoesNotExist \<Rightarrow> (Inr (False, ''Invalid verification token.'', None), s)
      | Inl e \<Rightarrow> (Inl e, s)
      | Inr pk \<Rightarrow>
          (let verification_token = email_verification_tokens s ! pk in
           if \<not> ev_is_valid now verification_token then
             (if ev_is_used verification_token
              then (Inr (False, ''This verification link has already been used.'', None), s)
              else (Inr (False, ''This verification link has expired.'', None), s))
           else
             (let verification_token = verification_token\<lparr>ev_is_used := True\<rparr>;
                  s1 = s\<lparr>email_verification_tokens :=
                          (email_verification_tokens s)[pk := verification_token]\<rparr>;
                  uid = ev_user verification_token
              in if uid < length (users s1) then
                   (let user = (users s1 ! uid)\<lparr>email_verified := True\<rparr>;
                        s2 = User_save s1 uid user
                    in (Inr (True, ''Email verified successfully!'', Some user), s2))
                 else (Inl RelatedObjectDoesNotExist, s1))))\<close>

definition verify_password_reset_token ::
  \<open>time \<Rightarrow> db \<Rightarrow> string \<Rightarrow> (error + bool \<times> string \<times> PasswordResetToken option) \<times> db\<close> where
  \<open>verify_password_reset_token now s token =
     (case objects_get (\<lambda>t. pr_token t = token) (password_reset_tokens s) of
        Inl DoesNotExist \<Rightarrow> (Inr (False, ''Invalid password reset token.'', None), s)
      | Inl e \<Rightarrow> (Inl e, s)
      | Inr pk \<Rightarrow>
          (let reset_token = password_reset_tokens s ! pk in
           if \<not> pr_is_valid now reset_token then
             (if pr_is_used reset_token
              then (Inr (False, ''This password reset link has already been used.'', None), s)
              else (Inr (False, ''This password reset link has expired.'', None), s))
           else (Inr (True, ''Token is valid.'', Some reset_token), s)))\<close>

section \<open>Serializers (serializers.py)\<close>

text \<open>
  Request data and validated attributes are dictionaries from field names to strings;
  \<open>serializer.errors\<close> maps a field name to its list of messages, in the order the fields
  are declared. The parts supplied by Django and the REST framework, which the sources
  only call, are parameters:
  \<^item> \<open>run_validation\<close>, the validation a declared field performs on its own on the
    submitted value: \<open>Inl msgs\<close> when it raises \<open>ValidationError\<close>, \<open>Inr None\<close> when an
    optional field is absent, \<open>Inr (Some v)\<close> with the validated value otherwise. The
    views take it as an argument; the fields the two serializers declare give it as
    \<open>UserRegistrationSerializer_run_validation\<close> and \<open>LoginSerializer_run_validation\<close>;
  \<^item> \<open>make_password\<close> and \<open>normalize_email\<close>, used by \<open>create_user\<close>;
  \<^item> \<open>authenticate\<close>, Django's credential check against the configured backends;
  \<^item> \<open>for_user\<close>, giving \<open>str(refresh)\<close> and \<open>str(refresh.access_token)\<close> of
    \<open>RefreshToken.for_user\<close>.
\<close>

type_synonym data = \<open>string \<rightharpoonup> string\<close>
type_synonym attrs = \<open>(string \<times> string) list\<close>
type_synonym run_validation = \<open>string \<Rightarrow> string option \<Rightarrow> string list + string option\<close>

record framework =
  make_password :: \<open>string \<Rightarrow> string\<close>
  normalize_email :: \<open>string \<Rightarrow> string\<close>
  authenticate :: \<open>User list \<Rightarrow> string \<Rightarrow> string \<Rightarrow> (nat \<times> User) option\<close>
  for_user :: \<open>nat \<times> User \<Rightarrow> string \<times> string\<close>

text \<open>
  \<open>Serializer.to_internal_value\<close>: every declared field is validated in turn, then handed
  to the method \<open>validate_<field>\<close> of the serializer when there is one; the messages of a
  failing field are collected under its name and the other fields are still examined.
\<close>

fun to_internal_value ::
  \<open>run_validation \<Rightarrow> (string \<Rightarrow> string \<Rightarrow> string list + string) \<Rightarrow> data \<Rightarrow> string list \<Rightarrow>
   field_errors \<times> attrs\<close> where
  \<open>to_internal_value run validate_method data [] = ([], [])\<close>
| \<open>to_internal_value run validate_method data (f # fs) =
     (let (errors, ret) = to_internal_value run validate_method data fs in
      case run f (data f) of
        Inl msgs \<Rightarrow> ((f, msgs) # errors, ret)
      | Inr None \<Rightarrow> (errors, ret)
      | Inr (Some v) \<Rightarrow>
          (case validate_method f v of
             Inl msgs \<Rightarrow> ((f, msgs) # errors, ret)
           | Inr v' \<Rightarrow> (errors, (f, v') # ret)))\<close>

text \<open>
  \<open>Serializer.is_valid\<close>: the object-level \<open>validate\<close> runs only when
  \<open>to_internal_value\<close> collected no error; a \<open>ValidationError\<close> of either phase becomes
  \<open>serializer.errors\<close>, any other exception leaves the call.
\<close>

definition is_valid ::
  \<open>run_validation \<Rightarrow> (string \<Rightarrow> string \<Rightarrow> string list + string) \<Rightarrow> (attrs \<Rightarrow> error + 'a) \<Rightarrow>
   string list \<Rightarrow> data \<Rightarrow> error + (field_errors + 'a)\<close> where
  \<open>is_valid run validate_method validate field_names data =
     (let (errors, ret) = to_internal_value run validate_method data field_names in
      if errors \<noteq> [] then Inr (Inl errors)
      else case validate ret of
             Inl (ValidationError detail) \<Rightarrow> Inr (Inl detail)
           | Inl e \<Rightarrow> Inl e
           | Inr validated_data \<Rightarrow> Inr (Inr validated_data))\<close>

subsection \<open>Declared fields\<close>

text \<open>
  The validation a declared character field performs on its own (\<open>CharField.run_validation\<close>
  of the REST framework, which \<open>EmailField\<close> shares): a missing value raises when the
  field is required and is skipped otherwise; a value that is blank once stripped raises
  unless blanks are allowed; otherwise the stripped value is handed to every validator of
  the field and their messages are collected. \<open>strip\<close> is Python's \<open>str.strip()\<close> on the
  ASCII white space.
\<close>

definition isspace :: \<open>char \<Rightarrow> bool\<close> where
  \<open>isspace c =
     (c \<in> set [CHR 0x20, CHR 0x09, CHR 0x0A, CHR 0x0B, CHR 0x0C, CHR 0x0D,
               CHR 0x1C, CHR 0x1D, CHR 0x1E, CHR 0x1F])\<close>

definition strip :: \<open>string \<Rightarrow> string\<close> where
  \<open>strip s = rev (dropWhile isspace (rev (dropWhile isspace s)))\<close>

definition field_run_validation ::
  \<open>bool \<Rightarrow> bool \<Rightarrow> (string \<Rightarrow> string list) \<Rightarrow> string option \<Rightarrow> string list + string option\<close>
  where
  \<open>field_run_validation required allow_blank validators raw =
     (case raw of
        None \<Rightarrow> if required then Inl [''This field is required.''] else Inr None
      | Some d \<Rightarrow>
          if strip d = [] then
            (if allow_blank then Inr (Some []) else Inl [''This field may not be blank.''])
          else
            (case validators (strip d) of
               [] \<Rightarrow> Inr (Some (strip d))
             | errors \<Rightarrow> Inl errors))\<close>

text \<open>
  \<open>UniqueValidator\<close>, which a \<open>ModelSerializer\<close> attaches to a field it takes from a model
  column declared \<open>unique=True\<close>: it raises its message when a row already holds the value.
\<close>

definition UniqueValidator :: \<open>(User \<Rightarrow> string) \<Rightarrow> string \<Rightarrow> User list \<Rightarrow> string \<Rightarrow> string list\<close>
  where
  \<open>UniqueValidator column msg us value =
     (if objects_filter (\<lambda>u. column u = value) us \<noteq> [] then [msg] else [])\<close>

text \<open>
  The other validators Django and the REST framework attach to a field (address format,
  lengths, the user-name pattern, \<open>validate_password\<close>) are the parameter \<open>fv\<close>: the
  messages they raise for the named field on a value.
\<close>

type_synonym field_validators = \<open>string \<Rightarrow> string \<Rightarrow> string list\<close>

subsection \<open>UserRegistrationSerializer\<close>

text \<open>
  The fields of \<open>Meta.fields\<close>. \<open>username\<close> and \<open>email\<close> come from the model, where both are
  unique (\<open>email = models.EmailField(unique=True)\<close>, and \<open>username\<close> of \<open>AbstractUser\<close>), and
  \<open>email\<close> is made required; \<open>password\<close>, \<open>password2\<close> and \<open>firebase_uid\<close> are declared in the
  serializer; \<open>first_name\<close> and \<open>last_name\<close> are optional and may be blank.
\<close>

definition UserRegistrationSerializer_run_validation ::
  \<open>field_validators \<Rightarrow> User list \<Rightarrow> run_validation\<close> where
  \<open>UserRegistrationSerializer_run_validation fv us f raw =
     (if f = ''username'' then
        field_run_validation True False
          (\<lambda>v. fv f v @ UniqueValidator username ''A user with that username already exists.'' us v)
          raw
      else if f = ''email'' then
        field_run_validation True False
          (\<lambda>v. fv f v @ UniqueValidator email ''user with this email already exists.'' us v)
          raw
      else if f = ''password'' \<or> f = ''password2'' then
        field_run_validation True False (fv f) raw
      else if f = ''first_name'' \<or> f = ''last_name'' then
        field_run_validation False True (fv f) raw
      else field_run_validation False False (fv f) raw)\<close>

definition UserRegistrationSerializer_fields :: \<open>string list\<close> where
  \<open>UserRegistrationSerializer_fields =
     [''username'', ''email'', ''password'', ''password2'', ''first_name'', ''last_name'',
      ''firebase_uid'']\<close>

definition UserRegistrationSerializer_validate :: \<open>attrs \<Rightarrow> error + attrs\<close> where
  \<open>UserRegistrationSerializer_validate attrs =
     (case map_of attrs ''password'' of
        None \<Rightarrow> Inl (KeyError ''password'')
      | Some p \<Rightarrow>
          (case map_of attrs ''password2'' of
             None \<Rightarrow> Inl (KeyError ''password2'')
           | Some p2 \<Rightarrow>
               if p \<noteq> p2
               then Inl (ValidationError [(''password'', [''Password fields didn't match.''])])
               else Inr attrs))\<close>

definition UserRegistrationSerializer_validate_email ::
  \<open>User list \<Rightarrow> string \<Rightarrow> string list + string\<close> where
  \<open>UserRegistrationSerializer_validate_email us value =
     (if objects_filter (\<lambda>u. email u = value) us \<noteq> []
      then Inl [''A user with this email already exists.'']
      else Inr value)\<close>

definition UserRegistrationSerializer_validate_method ::
  \<open>User list \<Rightarrow> string \<Rightarrow> string \<Rightarrow> string list + string\<close> where
  \<open>UserRegistrationSerializer_validate_method us f value =
     (if f = ''email'' then UserRegistrationSerializer_validate_email us value else Inr value)\<close>

text \<open>
  \<open>create_user\<close> stores the hash of the password. The table rejects a row that repeats a
  \<open>username\<close>, an \<open>email\<close> or a non-null \<open>firebase_uid\<close> (\<open>unique=True\<close> in \<open>models.py\<close>).
  A new account is active; its \<open>email_verified\<close> attribute is not set.
\<close>

definition create_user ::
  \<open>framework \<Rightarrow> db \<Rightarrow> string \<Rightarrow> string \<Rightarrow> string \<Rightarrow> string \<Rightarrow> string \<Rightarrow> string option \<Rightarrow>
   (error + nat \<times> User) \<times> db\<close> where
  \<open>create_user fw s uname mail pw fname lname fuid =
     (let user =
            \<lparr>username = uname, email = normalize_email fw mail, password = make_password fw pw,
             first_name = fname, last_name = lname, firebase_uid = fuid,
             is_active = True, email_verified = False\<rparr>
      in if objects_filter (\<lambda>u. username u = username user) (users s) \<noteq> []
            \<or> objects_filter (\<lambda>u. email u = email user) (users s) \<noteq> []
            \<or> (fuid \<noteq> None \<and> objects_filter (\<lambda>u. firebase_uid u = fuid) (users s) \<noteq> [])
         then (Inl IntegrityError, s)
         else (Inr (length (users s), user), s\<lparr>users := users s @ [user]\<rparr>))\<close>

definition get_default :: \<open>attrs \<Rightarrow> string \<Rightarrow> string \<Rightarrow> string\<close> where
  \<open>get_default d k dflt = (case map_of d k of Some v \<Rightarrow> v | None \<Rightarrow> dflt)\<close>

definition UserRegistrationSerializer_create ::
  \<open>framework \<Rightarrow> db \<Rightarrow> attrs \<Rightarrow> (error + nat \<times> User) \<times> db\<close> where
  \<open>UserRegistrationSerializer_create fw s validated_data =
     (case map_of validated_data ''password2'' of
        None \<Rightarrow> (Inl (KeyError ''password2''), s)
      | Some _ \<Rightarrow>
          (let firebase_uid = map_of validated_data ''firebase_uid'' in
           case map_of validated_data ''username'' of
             None \<Rightarrow> (Inl (KeyError ''username''), s)
           | Some uname \<Rightarrow>
               (case map_of validated_data ''email'' of
                  None \<Rightarrow> (Inl (KeyError ''email''), s)
                | Some mail \<Rightarrow>
                    (case map_of validated_data ''password'' of
                       None \<Rightarrow> (Inl (KeyError ''password''), s)
                     | Some pw \<Rightarrow>
                         create_user fw s uname mail pw
                           (get_default validated_data ''first_name'' [])
                           (get_default validated_data ''last_name'' [])
                           firebase_uid))))\<close>

subsection \<open>LoginSerializer\<close>

definition LoginSerializer_fields :: \<open>string list\<close> where
  \<open>LoginSerializer_fields = [''email'', ''password'']\<close>

text \<open>Both fields are declared with \<open>required=True\<close> and do not allow a blank value.\<close>

definition LoginSerializer_run_validation :: \<open>field_validators \<Rightarrow> run_validation\<close> where
  \<open>LoginSerializer_run_validation fv f raw = field_run_validation True False (fv f) raw\<close>

text \<open>
  \<open>attrs.get\<close> gives \<open>None\<close> for a missing key; \<open>None\<close> and the empty string are both false
  in \<open>if email and password\<close>, so a missing value is read as the empty string.
\<close>

definition LoginSerializer_validate ::
  \<open>framework \<Rightarrow> User list \<Rightarrow> attrs \<Rightarrow> error + attrs \<times> (nat \<times> User)\<close> where
  \<open>LoginSerializer_validate fw us attrs =
     (let email' = get_default attrs ''email'' [];
          password' = get_default attrs ''password'' []
      in if email' \<noteq> [] \<and> password' \<noteq> [] then
           (case objects_get (\<lambda>u. email u = email') us of
              Inl DoesNotExist \<Rightarrow>
                Inl (ValidationError [(''error'', [''Invalid email or password.''])])
            | Inl e \<Rightarrow> Inl e
            | Inr pk \<Rightarrow>
                (case authenticate fw us (username (us ! pk)) password' of
                   None \<Rightarrow> Inl (ValidationError [(''error'', [''Invalid email or password.''])])
                 | Some user \<Rightarrow>
                     if \<not> is_active (snd user)
                     then Inl (ValidationError [(''error'', [''User account is disabled.''])])
                     else Inr (attrs, user)))
         else Inl (ValidationError [(''error'', [''Must include "email" and "password".''])]))\<close>

section \<open>Views (views.py)\<close>

datatype json =
    JNull
  | JInt int
  | JString string
  | JList \<open>json list\<close>
  | JObject \<open>(string \<times> json) list\<close>

definition errors_json :: \<open>field_errors \<Rightarrow> json\<close> where
  \<open>errors_json errors = JObject (map (\<lambda>(f, msgs). (f, JList (map JString msgs))) errors)\<close>

definition json_opt :: \<open>string option \<Rightarrow> json\<close> where
  \<open>json_opt v = (case v of None \<Rightarrow> JNull | Some x \<Rightarrow> JString x)\<close>

definition HTTP_200_OK :: nat where \<open>HTTP_200_OK = 200\<close>
definition HTTP_201_CREATED :: nat where \<open>HTTP_201_CREATED = 201\<close>
definition HTTP_400_BAD_REQUEST :: nat where \<open>HTTP_400_BAD_REQUEST = 400\<close>

definition RegisterView_post ::
  \<open>framework \<Rightarrow> run_validation \<Rightarrow> db \<Rightarrow> data \<Rightarrow> (error + nat \<times> json) \<times> db\<close> where
  \<open>RegisterView_post fw run s data =
     (case is_valid run (UserRegistrationSerializer_validate_method (users s))
             UserRegistrationSerializer_validate UserRegistrationSerializer_fields data of
        Inl e \<Rightarrow> (Inl e, s)
      | Inr (Inl errors) \<Rightarrow> (Inr (HTTP_400_BAD_REQUEST, errors_json errors), s)
      | Inr (Inr validated_data) \<Rightarrow>
          (case UserRegistrationSerializer_create fw s validated_data of
             (Inl e, s') \<Rightarrow> (Inl e, s')
           | (Inr user, s') \<Rightarrow>
               (let refresh = for_user fw user in
                (Inr (HTTP_201_CREATED,
                   JObject
                     [(''message'',
                       JString ''Registration successful! Firebase will send verification email.''),
                      (''tokens'',
                       JObject [(''refresh'', JString (fst refresh)),
                                (''access'', JString (snd refresh))]),
                      (''user'',
                       JObject [(''id'', JInt (int (fst user))),
                                (''username'', JString (username (snd user))),
                                (''email'', JString (email (snd user))),
                                (''firebase_uid'', json_opt (firebase_uid (snd user)))])]),
                 s'))))\<close>

definition LoginView_post ::
  \<open>framework \<Rightarrow> run_validation \<Rightarrow> db \<Rightarrow> data \<Rightarrow> (error + nat \<times> json) \<times> db\<close> where
  \<open>LoginView_post fw run s data =
     (case is_valid run (\<lambda>f v. Inr v) (LoginSerializer_validate fw (users s))
             LoginSerializer_fields data of
        Inl e \<Rightarrow> (Inl e, s)
      | Inr (Inl errors) \<Rightarrow> (Inr (HTTP_400_BAD_REQUEST, errors_json errors), s)
      | Inr (Inr validated_data) \<Rightarrow>
          (let user = snd validated_data;
               refresh = for_user fw user in
           (Inr (HTTP_200_OK,
              JObject
                [(''message'', JString ''Login successful!''),
                 (''tokens'',
                  JObject [(''refresh'', JString (fst refresh)),
                           (''access'', JString (snd refresh))]),
                 (''user'',
                  JObject [(''id'', JInt (int (fst user))),
                           (''username'', JString (username (snd user))),
                           (''email'', JString (email (snd user))),
                           (''firebase_uid'', json_opt (firebase_uid (snd user))),
                           (''first_name'', JString (first_name (snd user))),
                           (''last_name'', JString (last_name (snd user)))])]),
            s)))\<close>

section \<open>Reading results and concrete stores\<close>

text \<open>The success flag of a returned tuple; an exception is not a success.\<close>

definition succeeded :: \<open>(error + bool \<times> string \<times> 'a option) \<Rightarrow> bool\<close> where
  \<open>succeeded r = (case r of Inr (ok, msg, obj) \<Rightarrow> ok | Inl e \<Rightarrow> False)\<close>

text \<open>
  A store with two accounts. Alice holds an unused verification token and an unused reset
  token; Bob's tokens have both been used and have run out by time 5000.
\<close>

definition alice :: User where
  \<open>alice =
     \<lparr>username = ''alice'', email = ''alice@example.com'', password = ''pbkdf2$alice'',
      first_name = ''Alice'', last_name = [], firebase_uid = None, is_active = True,
      email_verified = False\<rparr>\<close>

definition bob :: User where
  \<open>bob =
     \<lparr>username = ''bob'', email = ''bob@example.com'', password = ''pbkdf2$bob'',
      first_name = ''Bob'', last_name = [], firebase_uid = Some ''fb-bob'', is_active = True,
      email_verified = False\<rparr>\<close>

definition example_db :: db where
  \<open>example_db =
     \<lparr>users = [alice, bob],
      email_verification_tokens =
        [\<lparr>ev_user = 0, ev_code = ''482913'', ev_token = Some ''tok-a'', ev_created_at = 1000,
          ev_expires_at = 1900, ev_is_used = False\<rparr>,
         \<lparr>ev_user = 1, ev_code = ''113355'', ev_token = Some ''tok-b'', ev_created_at = 0,
          ev_expires_at = 900, ev_is_used = True\<rparr>],
      password_reset_tokens =
        [\<lparr>pr_user = 0, pr_token = ''reset-a'', pr_created_at = 1000, pr_expires_at = 4600,
          pr_is_used = False\<rparr>,
         \<lparr>pr_user = 1, pr_token = ''reset-b'', pr_created_at = 0, pr_expires_at = 3600,
          pr_is_used = True\<rparr>],
      stdout = []\<rparr>\<close>

definition example_settings :: settings where
  \<open>example_settings =
     \<lparr>DEFAULT_FROM_EMAIL = ''noreply@learnbox.test'', FRONTEND_URL = None\<rparr>\<close>

text \<open>A mail transport that delivers, and one whose connection is refused.\<close>

definition mail_ok :: \<open>email_message \<Rightarrow> string option\<close> where
  \<open>mail_ok m = None\<close>

definition mail_down :: \<open>email_message \<Rightarrow> string option\<close> where
  \<open>mail_down m = Some ''Connection refused''\<close>

text \<open>
  The store after a verification code has been issued to Alice at time 2000, mail
  delivered, with the random draw that gives the code 482913 and no value for the column
  \<open>token\<close>.
\<close>

definition issued_db :: db where
  \<open>issued_db =
     snd (send_verification_email example_settings mail_ok 2000 382913 None example_db
            (0, alice))\<close>

text \<open>
  Validators for the fields of the two serializers (an address needs an at sign, a new
  password eight characters), a framework whose password hash prefixes a marker and whose
  backend admits active users with the right password, and four requests.
\<close>

definition registration_validators :: field_validators where
  \<open>registration_validators f v =
     (if f = ''email'' \<and> CHR ''@'' \<notin> set v then [''Enter a valid email address.'']
      else if f = ''password'' \<and> length v < 8
      then [''This password is too short. It must contain at least 8 characters.'']
      else [])\<close>

definition login_validators :: field_validators where
  \<open>login_validators f v =
     (if f = ''email'' \<and> CHR ''@'' \<notin> set v then [''Enter a valid email address.''] else [])\<close>

definition example_framework :: framework where
  \<open>example_framework =
     \<lparr>make_password = (\<lambda>p. ''pbkdf2$'' @ p),
      normalize_email = (\<lambda>e. e),
      authenticate = (\<lambda>us u p.
        case objects_get (\<lambda>x. username x = u \<and> password x = ''pbkdf2$'' @ p \<and> is_active x) us of
          Inr i \<Rightarrow> Some (i, us ! i)
        | Inl e \<Rightarrow> None),
      for_user = (\<lambda>u. (''refresh.'' @ username (snd u), ''access.'' @ username (snd u)))\<rparr>\<close>

definition register_taken_email :: data where
  \<open>register_taken_email =
     map_of [(''username'', ''robert''), (''email'', ''bob@example.com''),
             (''password'', ''correct horse''), (''password2'', ''battery staple'')]\<close>

definition register_new_email :: data where
  \<open>register_new_email =
     map_of [(''username'', ''carol''), (''email'', ''carol@example.com''),
             (''password'', ''correct horse''), (''password2'', ''battery staple'')]\<close>

definition login_unknown :: data where
  \<open>login_unknown = map_of [(''email'', ''nobody@example.com''), (''password'', ''alice'')]\<close>

definition login_wrong_password :: data where
  \<open>login_wrong_password =
     map_of [(''email'', ''alice@example.com''), (''password'', ''guess'')]\<close>

section \<open>Facts about lookups and the validator\<close>

lemma objects_get_Inr: "objects_get p tbl = Inr pk \<Longrightarrow> objects_filter p tbl = [pk]"
  by (auto simp: objects_get_def split: list.splits)

lemma objects_get_Inl:
  "objects_get p tbl = Inl e \<Longrightarrow> e = DoesNotExist \<or> e = MultipleObjectsReturned"
  by (auto simp: objects_get_def split: list.splits)

lemma objects_filter_single: "objects_filter p tbl = [pk] \<Longrightarrow> pk < length tbl \<and> p (tbl ! pk)"
proof -
  assume "objects_filter p tbl = [pk]"
  then have "pk \<in> set (filter (\<lambda>i. p (tbl ! i)) [0..<length tbl])"
    by (simp add: objects_filter_def)
  then show ?thesis by simp
qed

lemma objects_filter_same:
  assumes "length tbl' = length tbl" and "\<And>i. i < length tbl \<Longrightarrow> p (tbl' ! i) = p (tbl ! i)"
  shows "objects_filter p tbl' = objects_filter p tbl"
  unfolding objects_filter_def using assms by (auto intro: filter_cong)

lemma objects_get_update:
  assumes "pk < length tbl" and "p v = p (tbl ! pk)"
  shows "objects_get p (tbl[pk := v]) = objects_get p tbl"
proof -
  have "objects_filter p (tbl[pk := v]) = objects_filter p tbl"
  proof (rule objects_filter_same)
    show "length (tbl[pk := v]) = length tbl" by simp
  next
    fix i assume "i < length tbl"
    with assms show "p (tbl[pk := v] ! i) = p (tbl ! i)" by (cases "i = pk") simp_all
  qed
  then show ?thesis by (simp add: objects_get_def)
qed

lemma User_save_tokens:
  "email_verification_tokens (User_save s pk obj) = email_verification_tokens s"
  "password_reset_tokens (User_save s pk obj) = password_reset_tokens s"
  by (simp_all add: User_save_def)

lemma User_save_unchanged:
  "pk < length (users s) \<Longrightarrow> User_save s pk ((users s ! pk)\<lparr>email_verified := b\<rparr>) = s"
  by (simp add: User_save_def)

lemma verify_email_token_found:
  assumes g: "objects_get (\<lambda>t. ev_token t = Some token) (email_verification_tokens s) = Inr pk"
  shows "verify_email_token now s token =
     (let verification_token = email_verification_tokens s ! pk in
           if \<not> ev_is_valid now verification_token then
             (if ev_is_used verification_token
              then (Inr (False, ''This verification link has already been used.'', None), s)
              else (Inr (False, ''This verification link has expired.'', None), s))
           else
             (let verification_token = verification_token\<lparr>ev_is_used := True\<rparr>;
                  s1 = s\<lparr>email_verification_tokens :=
                          (email_verification_tokens s)[pk := verification_token]\<rparr>;
                  uid = ev_user verification_token
              in if uid < length (users s1) then
                   (let user = (users s1 ! uid)\<lparr>email_verified := True\<rparr>;
                        s2 = User_save s1 uid user
                    in (Inr (True, ''Email verified successfully!'', Some user), s2))
                 else (Inl RelatedObjectDoesNotExist, s1)))"
  by (simp add: verify_email_token_def g)

lemma verify_password_reset_token_found:
  assumes g: "objects_get (\<lambda>t. pr_token t = token) (password_reset_tokens s) = Inr pk"
  shows "verify_password_reset_token now s token =
          (let reset_token = password_reset_tokens s ! pk in
           if \<not> pr_is_valid now reset_token then
             (if pr_is_used reset_token
              then (Inr (False, ''This password reset link has already been used.'', None), s)
              else (Inr (False, ''This password reset link has expired.'', None), s))
           else (Inr (True, ''Token is valid.'', Some reset_token), s))"
  by (simp add: verify_password_reset_token_def g)

lemma verify_email_token_success:
  assumes "verify_email_token now s token = (Inr (True, msg, u), s')"
  obtains pk where
    "objects_get (\<lambda>t. ev_token t = Some token) (email_verification_tokens s) = Inr pk"
    "ev_is_valid now (email_verification_tokens s ! pk)"
    "email_verification_tokens s' =
       (email_verification_tokens s)[pk := (email_verification_tokens s ! pk)\<lparr>ev_is_used := True\<rparr>]"
proof (cases "objects_get (\<lambda>t. ev_token t = Some token) (email_verification_tokens s)")
  case (Inl e)
  with assms show ?thesis
    by (cases e) (simp_all add: verify_email_token_def)
next
  case (Inr pk)
  from assms have v: "ev_is_valid now (email_verification_tokens s ! pk)"
    unfolding verify_email_token_found [OF Inr] by (auto simp: Let_def split: if_splits)
  from assms v have "email_verification_tokens s' =
       (email_verification_tokens s)[pk := (email_verification_tokens s ! pk)\<lparr>ev_is_used := True\<rparr>]"
    unfolding verify_email_token_found [OF Inr]
    by (auto simp: Let_def User_save_tokens split: if_splits)
  with Inr v show ?thesis by (rule that)
qed

section \<open>Facts about the generated code\<close>

lemma of_char_digit_char:
  assumes "d < 10"
  shows "of_char (digit_char d) = 48 + d"
proof -
  from assms have "d = 0 \<or> d = 1 \<or> d = 2 \<or> d = 3 \<or> d = 4 \<or> d = 5 \<or> d = 6 \<or> d = 7 \<or> d = 8 \<or> d = 9"
    by arith
  then show ?thesis
    by (elim disjE) (simp_all add: digit_char_def)
qed

lemma str_nat_digits: "list_all (\<lambda>c. (48::nat) \<le> of_char c \<and> of_char c \<le> (57::nat)) (str_nat n)"
proof (induction n rule: str_nat.induct)
  case (1 n)
  show ?case
  proof (cases "n < 10")
    case True
    then show ?thesis by (subst str_nat.simps) (simp add: of_char_digit_char)
  next
    case False
    have "n mod 10 < 10" by simp
    then have "(of_char (digit_char (n mod 10)) :: nat) = 48 + n mod 10"
      by (rule of_char_digit_char)
    with False 1 show ?thesis by (subst str_nat.simps) simp
  qed
qed

lemma str_nat_nonempty: "str_nat n \<noteq> []"
  by (subst str_nat.simps) simp

lemma str_nat_length: "10 ^ k \<le> n \<Longrightarrow> n < 10 ^ Suc k \<Longrightarrow> length (str_nat n) = Suc k"
proof (induction k arbitrary: n)
  case 0
  then show ?case by (subst str_nat.simps) simp
next
  case (Suc k)
  from Suc.prems have ge: "10 \<le> n" 
    by (metis One_nat_def le_trans one_le_numeral one_le_power power_Suc power_one_right mult.commute mult_le_mono2 nat_mult_1_right)
  from Suc.prems have lo: "10 ^ k \<le> n div 10" by (simp add: less_eq_div_iff_mult_less_eq)
  from Suc.prems have hi: "n div 10 < 10 ^ Suc k" by (simp add: div_less_iff_less_mult)
  from ge have "str_nat n = str_nat (n div 10) @ [digit_char (n mod 10)]"
    by (subst str_nat.simps) simp
  with Suc.IH [OF lo hi] show ?case by simp
qed

lemma int_of_digits_append: "int_of_digits (xs @ [c]) = 10 * int_of_digits xs + (int (of_char c) - 48)"
  by (simp add: int_of_digits_def)

lemma int_of_digits_str_nat: "int_of_digits (str_nat n) = int n"
proof (induction n rule: str_nat.induct)
  case (1 n)
  show ?case
  proof (cases "n < 10")
    case True
    then show ?thesis by (subst str_nat.simps) (simp add: int_of_digits_def of_char_digit_char)
  next
    case False
    have d: "(of_char (digit_char (n mod 10)) :: nat) = 48 + n mod 10"
      by (rule of_char_digit_char) simp
    from False have "str_nat n = str_nat (n div 10) @ [digit_char (n mod 10)]"
      by (subst str_nat.simps) simp
    moreover have "10 * int (n div 10) + int (n mod 10) = int n" by presburger
    ultimately show ?thesis using 1 False d by (simp add: int_of_digits_append)
  qed
qed

lemma randint_range: "a \<le> b \<Longrightarrow> a \<le> randint a b r \<and> randint a b r \<le> b"
proof -
  assume ab: "a \<le> b"
  then have "0 < nat (b - a + 1)" by simp
  then have "r mod nat (b - a + 1) < nat (b - a + 1)" by (rule mod_less_divisor)
  then have "int (r mod nat (b - a + 1)) < int (nat (b - a + 1))" by (simp only: of_nat_less_iff)
  with ab have "int (r mod nat (b - a + 1)) < b - a + 1" by simp
  then show ?thesis by (simp add: randint_def)
qed

lemma code_six_digits:
  fixes r :: nat
  defines "code \<equiv> str (randint 100000 999999 r)"
  shows "length code = 6 \<and> isdigit code \<and> 100000 \<le> int_of_digits code \<and> int_of_digits code \<le> 999999"
proof -
  let ?n = "randint 100000 999999 r"
  have rng: "100000 \<le> ?n \<and> ?n \<le> 999999" by (rule randint_range) simp
  then have c: "code = str_nat (nat ?n)" by (simp add: code_def str_def)
  from rng have "(100000::nat) \<le> nat ?n" "nat ?n < (1000000::nat)" by linarith+
  then have "10 ^ 5 \<le> nat ?n" "nat ?n < 10 ^ Suc 5" by simp_all
  then have "length (str_nat (nat ?n)) = Suc 5" by (rule str_nat_length)
  moreover have "isdigit (str_nat (nat ?n))" by (simp add: isdigit_def str_nat_nonempty str_nat_digits)
  moreover from rng have "int_of_digits (str_nat (nat ?n)) = ?n" by (simp add: int_of_digits_str_nat)
  ultimately show ?thesis using rng c by simp
qed

section \<open>Facts about the serializers\<close>

lemma objects_filter_nonempty: "objects_filter p tbl \<noteq> [] \<longleftrightarrow> (\<exists>x \<in> set tbl. p x)"
proof
  assume "objects_filter p tbl \<noteq> []"
  then obtain i where "i < length tbl" "p (tbl ! i)"
    by (auto simp: objects_filter_def filter_empty_conv)
  then show "\<exists>x \<in> set tbl. p x" using nth_mem by blast
next
  assume "\<exists>x \<in> set tbl. p x"
  then obtain i where "i < length tbl" "p (tbl ! i)"
    by (auto simp: in_set_conv_nth)
  then show "objects_filter p tbl \<noteq> []"
    by (auto simp: objects_filter_def filter_empty_conv)
qed






lemma example_code: "str (randint 100000 999999 382913) = ''482913''"
  by (simp add: str_def randint_def str_nat.simps digit_char_def)

lemma issued_db_eq:
  "issued_db = example_db\<lparr>email_verification_tokens := email_verification_tokens example_db @
       [\<lparr>ev_user = 0, ev_code = ''482913'', ev_token = None, ev_created_at = 2000,
                ev_expires_at = 2900, ev_is_used = False\<rparr>]\<rparr>"
  by (simp add: issued_db_def send_verification_email_def Let_def mail_ok_def example_code
      timedelta_minutes_def)

lemma issued_code_lookup_fails:
  assumes "token_default \<noteq> Some (str (randint 100000 999999 r))"
    and "\<forall>t \<in> set (email_verification_tokens s). ev_token t \<noteq> Some (str (randint 100000 999999 r))"
  shows "verify_email_token now'
           (snd (send_verification_email conf send_mail now r token_default s usr))
           (str (randint 100000 999999 r))
         = (Inr (False, ''Invalid verification token.'', None),
            snd (send_verification_email conf send_mail now r token_default s usr))"
proof -
  let ?code = "str (randint 100000 999999 r)"
  let ?s' = "snd (send_verification_email conf send_mail now r token_default s usr)"
  have "email_verification_tokens ?s' = email_verification_tokens s @
      [\<lparr>ev_user = fst usr, ev_code = ?code, ev_token = token_default, ev_created_at = now,
        ev_expires_at = now + timedelta_minutes 15, ev_is_used = False\<rparr>]"
    by (cases "send_mail (verification_mail conf (snd usr) ?code)")
       (simp_all add: send_verification_email_def Let_def)
  with assms have "\<not> (\<exists>t \<in> set (email_verification_tokens ?s'). ev_token t = Some ?code)"
    by auto
  then have "objects_filter (\<lambda>t. ev_token t = Some ?code) (email_verification_tokens ?s') = []"
    using objects_filter_nonempty [of "\<lambda>t. ev_token t = Some ?code" "email_verification_tokens ?s'"]
    by blast
  then show ?thesis by (simp add: verify_email_token_def objects_get_def)
qed

section \<open>The token validator: claims\<close>

text \<open>
  Claim C1, as amended. A call of \<open>verify_email_token\<close> that succeeds leaves the token
  marked used: every later call with the same value, at whatever time \<open>now'\<close>, reports
  "already used" and changes nothing. \<open>verify_password_reset_token\<close> only checks the
  token; it never changes the store, so it does not consume the token.
\<close>

theorem verify_email_token_single_use:
  "(verify_email_token now s token = (Inr (True, msg, u), s') \<longrightarrow>
      verify_email_token now' s' token =
        (Inr (False, ''This verification link has already been used.'', None), s'))
   \<and> snd (verify_password_reset_token now s token) = s"
proof (intro conjI impI)
  assume a: "verify_email_token now s token = (Inr (True, msg, u), s')"
  then obtain pk where
    g: "objects_get (\<lambda>t. ev_token t = Some token) (email_verification_tokens s) = Inr pk" and
    t': "email_verification_tokens s' =
       (email_verification_tokens s)[pk := (email_verification_tokens s ! pk)\<lparr>ev_is_used := True\<rparr>]"
    by (rule verify_email_token_success)
  let ?tbl = "email_verification_tokens s"
  from g have pk: "pk < length ?tbl" "ev_token (?tbl ! pk) = Some token"
    using objects_filter_single [OF objects_get_Inr [OF g]] by simp_all
  have g': "objects_get (\<lambda>t. ev_token t = Some token) (email_verification_tokens s') = Inr pk"
    unfolding t' using pk g by (simp add: objects_get_update)
  from pk have used: "ev_is_used (email_verification_tokens s' ! pk)"
    unfolding t' by simp
  show "verify_email_token now' s' token =
        (Inr (False, ''This verification link has already been used.'', None), s')"
    unfolding verify_email_token_found [OF g'] using used by (simp add: ev_is_valid_def)
next
  show "snd (verify_password_reset_token now s token) = s"
    by (auto simp: verify_password_reset_token_def Let_def split: sum.splits error.splits)
qed

text \<open>
  Claim C1 at a concrete input: Alice's verification token is accepted at time 1000 and
  refused as already used at time 5000.
\<close>

theorem verify_email_token_single_use_witness:
  "verify_email_token 1000 example_db ''tok-a'' =
     (Inr (True, ''Email verified successfully!'', Some (alice\<lparr>email_verified := True\<rparr>)),
      snd (verify_email_token 1000 example_db ''tok-a''))
   \<and> verify_email_token 5000 (snd (verify_email_token 1000 example_db ''tok-a'')) ''tok-a'' =
       (Inr (False, ''This verification link has already been used.'', None),
        snd (verify_email_token 1000 example_db ''tok-a''))"
proof -
  have h: "verify_email_token 1000 example_db ''tok-a'' =
     (Inr (True, ''Email verified successfully!'', Some (alice\<lparr>email_verified := True\<rparr>)),
      snd (verify_email_token 1000 example_db ''tok-a''))"
    by code_simp
  from verify_email_token_single_use [of 1000 example_db "''tok-a''" _ _ _ 5000] h
  show ?thesis by blast
qed

text \<open>
  Claim C1 as stated fails for the password-reset kind: Alice's reset token is accepted
  at time 1000 and accepted again at time 1001, two successes on the same value.
\<close>

theorem verify_password_reset_token_succeeds_twice:
  "fst (verify_password_reset_token 1000 example_db ''reset-a'')
     = Inr (True, ''Token is valid.'', Some (password_reset_tokens example_db ! 0))
   \<and> fst (verify_password_reset_token 1001
            (snd (verify_password_reset_token 1000 example_db ''reset-a'')) ''reset-a'')
     = Inr (True, ''Token is valid.'', Some (password_reset_tokens example_db ! 0))"
  by code_simp

text \<open>
  Claim C2. A token that is both used and expired is reported as already used, not as
  expired, by both validators: the used flag is examined first.
\<close>

theorem used_reported_before_expired:
  "(objects_get (\<lambda>t. ev_token t = Some token) (email_verification_tokens s) = Inr pk
      \<and> ev_is_used (email_verification_tokens s ! pk)
      \<and> ev_expires_at (email_verification_tokens s ! pk) \<le> now
    \<longrightarrow> verify_email_token now s token =
          (Inr (False, ''This verification link has already been used.'', None), s))
   \<and> (objects_get (\<lambda>t. pr_token t = token') (password_reset_tokens s) = Inr pk'
      \<and> pr_is_used (password_reset_tokens s ! pk')
      \<and> pr_expires_at (password_reset_tokens s ! pk') \<le> now
    \<longrightarrow> verify_password_reset_token now s token' =
          (Inr (False, ''This password reset link has already been used.'', None), s))"
proof (intro conjI impI)
  assume "objects_get (\<lambda>t. ev_token t = Some token) (email_verification_tokens s) = Inr pk
      \<and> ev_is_used (email_verification_tokens s ! pk)
      \<and> ev_expires_at (email_verification_tokens s ! pk) \<le> now"
  then show "verify_email_token now s token =
          (Inr (False, ''This verification link has already been used.'', None), s)"
    by (simp add: verify_email_token_found ev_is_valid_def)
next
  assume "objects_get (\<lambda>t. pr_token t = token') (password_reset_tokens s) = Inr pk'
      \<and> pr_is_used (password_reset_tokens s ! pk')
      \<and> pr_expires_at (password_reset_tokens s ! pk') \<le> now"
  then show "verify_password_reset_token now s token' =
          (Inr (False, ''This password reset link has already been used.'', None), s)"
    by (simp add: verify_password_reset_token_found pr_is_valid_def)
qed

text \<open>
  Claim C2 at a concrete input: Bob's tokens, used and expired at time 5000.
\<close>

theorem used_reported_before_expired_witness:
  "objects_get (\<lambda>t. ev_token t = Some ''tok-b'') (email_verification_tokens example_db) = Inr 1
   \<and> ev_is_used (email_verification_tokens example_db ! 1)
   \<and> ev_expires_at (email_verification_tokens example_db ! 1) \<le> 5000
   \<and> verify_email_token 5000 example_db ''tok-b'' =
        (Inr (False, ''This verification link has already been used.'', None), example_db)
   \<and> objects_get (\<lambda>t. pr_token t = ''reset-b'') (password_reset_tokens example_db) = Inr 1
   \<and> pr_is_used (password_reset_tokens example_db ! 1)
   \<and> pr_expires_at (password_reset_tokens example_db ! 1) \<le> 5000
   \<and> verify_password_reset_token 5000 example_db ''reset-b'' =
        (Inr (False, ''This password reset link has already been used.'', None), example_db)"
proof -
  have e: "objects_get (\<lambda>t. ev_token t = Some ''tok-b'') (email_verification_tokens example_db) = Inr 1
   \<and> ev_is_used (email_verification_tokens example_db ! 1)
   \<and> ev_expires_at (email_verification_tokens example_db ! 1) \<le> 5000"
    by code_simp
  have r: "objects_get (\<lambda>t. pr_token t = ''reset-b'') (password_reset_tokens example_db) = Inr 1
   \<and> pr_is_used (password_reset_tokens example_db ! 1)
   \<and> pr_expires_at (password_reset_tokens example_db ! 1) \<le> 5000"
    by code_simp
  from e r used_reported_before_expired [of "''tok-b''" example_db 1 5000 "''reset-b''" 1]
  show ?thesis by blast
qed

text \<open>
  Claim C3. A stored token is valid iff \<open>now < expires_at\<close> and it is unused, and the
  validators accept exactly the valid tokens; an unused token presented at the instant
  \<open>now = expires_at\<close> is reported as expired. For the email kind the user the token
  refers to is taken to exist, as the foreign key guarantees.
\<close>

theorem valid_iff_unexpired_and_unused:
  "(objects_get (\<lambda>t. ev_token t = Some token) (email_verification_tokens s) = Inr pk
      \<and> ev_user (email_verification_tokens s ! pk) < length (users s)
    \<longrightarrow> (ev_is_valid now (email_verification_tokens s ! pk)
           \<longleftrightarrow> now < ev_expires_at (email_verification_tokens s ! pk)
               \<and> \<not> ev_is_used (email_verification_tokens s ! pk))
        \<and> (succeeded (fst (verify_email_token now s token))
           \<longleftrightarrow> now < ev_expires_at (email_verification_tokens s ! pk)
               \<and> \<not> ev_is_used (email_verification_tokens s ! pk))
        \<and> (\<not> ev_is_used (email_verification_tokens s ! pk)
             \<and> now = ev_expires_at (email_verification_tokens s ! pk)
           \<longrightarrow> verify_email_token now s token =
                 (Inr (False, ''This verification link has expired.'', None), s)))
   \<and> (objects_get (\<lambda>t. pr_token t = token') (password_reset_tokens s) = Inr pk'
    \<longrightarrow> (pr_is_valid now (password_reset_tokens s ! pk')
           \<longleftrightarrow> now < pr_expires_at (password_reset_tokens s ! pk')
               \<and> \<not> pr_is_used (password_reset_tokens s ! pk'))
        \<and> (succeeded (fst (verify_password_reset_token now s token'))
           \<longleftrightarrow> now < pr_expires_at (password_reset_tokens s ! pk')
               \<and> \<not> pr_is_used (password_reset_tokens s ! pk'))
        \<and> (\<not> pr_is_used (password_reset_tokens s ! pk')
             \<and> now = pr_expires_at (password_reset_tokens s ! pk')
           \<longrightarrow> verify_password_reset_token now s token' =
                 (Inr (False, ''This password reset link has expired.'', None), s)))"
proof (intro conjI impI)
  assume a: "objects_get (\<lambda>t. ev_token t = Some token) (email_verification_tokens s) = Inr pk
      \<and> ev_user (email_verification_tokens s ! pk) < length (users s)"
  show "ev_is_valid now (email_verification_tokens s ! pk)
           \<longleftrightarrow> now < ev_expires_at (email_verification_tokens s ! pk)
               \<and> \<not> ev_is_used (email_verification_tokens s ! pk)"
    by (simp add: ev_is_valid_def)
  from a show "succeeded (fst (verify_email_token now s token))
           \<longleftrightarrow> now < ev_expires_at (email_verification_tokens s ! pk)
               \<and> \<not> ev_is_used (email_verification_tokens s ! pk)"
    by (simp add: verify_email_token_found ev_is_valid_def succeeded_def Let_def)
  assume "\<not> ev_is_used (email_verification_tokens s ! pk)
             \<and> now = ev_expires_at (email_verification_tokens s ! pk)"
  with a show "verify_email_token now s token =
                 (Inr (False, ''This verification link has expired.'', None), s)"
    by (simp add: verify_email_token_found ev_is_valid_def)
next
  assume a: "objects_get (\<lambda>t. pr_token t = token') (password_reset_tokens s) = Inr pk'"
  show "pr_is_valid now (password_reset_tokens s ! pk')
           \<longleftrightarrow> now < pr_expires_at (password_reset_tokens s ! pk')
               \<and> \<not> pr_is_used (password_reset_tokens s ! pk')"
    by (simp add: pr_is_valid_def)
  from a show "succeeded (fst (verify_password_reset_token now s token'))
           \<longleftrightarrow> now < pr_expires_at (password_reset_tokens s ! pk')
               \<and> \<not> pr_is_used (password_reset_tokens s ! pk')"
    by (simp add: verify_password_reset_token_found pr_is_valid_def succeeded_def Let_def)
  assume "\<not> pr_is_used (password_reset_tokens s ! pk')
             \<and> now = pr_expires_at (password_reset_tokens s ! pk')"
  with a show "verify_password_reset_token now s token' =
                 (Inr (False, ''This password reset link has expired.'', None), s)"
    by (simp add: verify_password_reset_token_found pr_is_valid_def)
qed

text \<open>
  Claim C3 at a concrete input: Alice's tokens presented at their expiry instants, 1900
  and 4600.
\<close>

theorem valid_iff_unexpired_and_unused_witness:
  "objects_get (\<lambda>t. ev_token t = Some ''tok-a'') (email_verification_tokens example_db) = Inr 0
   \<and> ev_user (email_verification_tokens example_db ! 0) < length (users example_db)
   \<and> \<not> ev_is_used (email_verification_tokens example_db ! 0)
   \<and> (1900::int) = ev_expires_at (email_verification_tokens example_db ! 0)
   \<and> \<not> succeeded (fst (verify_email_token 1900 example_db ''tok-a''))
   \<and> verify_email_token 1900 example_db ''tok-a'' =
        (Inr (False, ''This verification link has expired.'', None), example_db)
   \<and> objects_get (\<lambda>t. pr_token t = ''reset-a'') (password_reset_tokens example_db) = Inr 0
   \<and> \<not> pr_is_used (password_reset_tokens example_db ! 0)
   \<and> (4600::int) = pr_expires_at (password_reset_tokens example_db ! 0)
   \<and> \<not> succeeded (fst (verify_password_reset_token 4600 example_db ''reset-a''))
   \<and> verify_password_reset_token 4600 example_db ''reset-a'' =
        (Inr (False, ''This password reset link has expired.'', None), example_db)"
proof -
  have e: "objects_get (\<lambda>t. ev_token t = Some ''tok-a'') (email_verification_tokens example_db) = Inr 0
   \<and> ev_user (email_verification_tokens example_db ! 0) < length (users example_db)
   \<and> \<not> ev_is_used (email_verification_tokens example_db ! 0)
   \<and> (1900::int) = ev_expires_at (email_verification_tokens example_db ! 0)"
    by code_simp
  have r: "objects_get (\<lambda>t. pr_token t = ''reset-a'') (password_reset_tokens example_db) = Inr 0
   \<and> \<not> pr_is_used (password_reset_tokens example_db ! 0)
   \<and> (4600::int) = pr_expires_at (password_reset_tokens example_db ! 0)"
    by code_simp
  from e r
    valid_iff_unexpired_and_unused [of "''tok-a''" example_db 0 1900 "''reset-a''" 0]
    valid_iff_unexpired_and_unused [of "''tok-a''" example_db 0 4600 "''reset-a''" 0]
  show ?thesis by (simp add: succeeded_def)
qed

text \<open>
  Claim C10. Whenever a validator returns a tuple, its success flag is true iff the third
  component is not \<open>None\<close>, and a failure carries \<open>None\<close> with a non-empty message. The
  only calls that return no tuple are those that raise: several rows carry the token, or
  the token's user is missing.
\<close>

theorem verify_result_shape:
  "(case fst (verify_email_token now s token) of
      Inr (ok, msg, user) \<Rightarrow> (ok \<longleftrightarrow> user \<noteq> None) \<and> (\<not> ok \<longrightarrow> user = None \<and> msg \<noteq> [])
    | Inl e \<Rightarrow> e = MultipleObjectsReturned \<or> e = RelatedObjectDoesNotExist)
   \<and> (case fst (verify_password_reset_token now s token) of
      Inr (ok, msg, reset_token) \<Rightarrow>
        (ok \<longleftrightarrow> reset_token \<noteq> None) \<and> (\<not> ok \<longrightarrow> reset_token = None \<and> msg \<noteq> [])
    | Inl e \<Rightarrow> e = MultipleObjectsReturned)"
proof
  show "case fst (verify_email_token now s token) of
      Inr (ok, msg, user) \<Rightarrow> (ok \<longleftrightarrow> user \<noteq> None) \<and> (\<not> ok \<longrightarrow> user = None \<and> msg \<noteq> [])
    | Inl e \<Rightarrow> e = MultipleObjectsReturned \<or> e = RelatedObjectDoesNotExist"
  proof (cases "objects_get (\<lambda>t. ev_token t = Some token) (email_verification_tokens s)")
    case (Inl e)
    then show ?thesis
      using objects_get_Inl [OF Inl] by (auto simp: verify_email_token_def)
  next
    case (Inr pk)
    then show ?thesis by (simp add: verify_email_token_found Let_def)
  qed
next
  show "case fst (verify_password_reset_token now s token) of
      Inr (ok, msg, reset_token) \<Rightarrow>
        (ok \<longleftrightarrow> reset_token \<noteq> None) \<and> (\<not> ok \<longrightarrow> reset_token = None \<and> msg \<noteq> [])
    | Inl e \<Rightarrow> e = MultipleObjectsReturned"
  proof (cases "objects_get (\<lambda>t. pr_token t = token) (password_reset_tokens s)")
    case (Inl e)
    then show ?thesis
      using objects_get_Inl [OF Inl] by (auto simp: verify_password_reset_token_def)
  next
    case (Inr pk)
    then show ?thesis by (simp add: verify_password_reset_token_found Let_def)
  qed
qed

text \<open>
  Claim C10 at concrete inputs: an unknown token is a failure with \<open>None\<close> and a message,
  for both validators.
\<close>

theorem verify_result_shape_witness:
  "fst (verify_email_token 1000 example_db ''no-such-token'') =
     Inr (False, ''Invalid verification token.'', None)
   \<and> fst (verify_password_reset_token 1000 example_db ''no-such-token'') =
     Inr (False, ''Invalid password reset token.'', None)
   \<and> ''Invalid verification token.'' \<noteq> []
   \<and> ''Invalid password reset token.'' \<noteq> []"
proof -
  have e: "fst (verify_email_token 1000 example_db ''no-such-token'') =
     Inr (False, ''Invalid verification token.'', None)"
    by code_simp
  have r: "fst (verify_password_reset_token 1000 example_db ''no-such-token'') =
     Inr (False, ''Invalid password reset token.'', None)"
    by code_simp
  from verify_result_shape [of 1000 example_db "''no-such-token''"] e r
  show ?thesis by simp
qed

section \<open>The token issuer: claims\<close>

text \<open>
  Claim C4, evaluated where it fails. A verification code is issued to Alice at time 2000
  and the mail is delivered; the row stores 482913 in the column \<open>code\<close>. Presenting
  482913 to \<open>verify_email_token\<close> one second later finds no row, because the lookup
  filters on the column \<open>token\<close>: the answer is "Invalid verification token." and Alice
  stays unverified.
\<close>

theorem issued_code_not_found:
  "fst (send_verification_email example_settings mail_ok 2000 382913 None example_db (0, alice))
     = Inr (2, \<lparr>ev_user = 0, ev_code = ''482913'', ev_token = None, ev_created_at = 2000,
                ev_expires_at = 2900, ev_is_used = False\<rparr>)
   \<and> verify_email_token 2001 issued_db ''482913''
     = (Inr (False, ''Invalid verification token.'', None), issued_db)
   \<and> \<not> email_verified (users issued_db ! 0)"
proof (intro conjI)
  show "fst (send_verification_email example_settings mail_ok 2000 382913 None example_db (0, alice))
     = Inr (2, \<lparr>ev_user = 0, ev_code = ''482913'', ev_token = None, ev_created_at = 2000,
                ev_expires_at = 2900, ev_is_used = False\<rparr>)"
    by (simp add: send_verification_email_def Let_def mail_ok_def example_code
        timedelta_minutes_def example_db_def)
  have "objects_filter (\<lambda>t. ev_token t = Some ''482913'') (email_verification_tokens issued_db) = []"
    by (simp add: issued_db_eq example_db_def objects_filter_def)
  then show "verify_email_token 2001 issued_db ''482913''
     = (Inr (False, ''Invalid verification token.'', None), issued_db)"
    by (simp add: verify_email_token_def objects_get_def)
  show "\<not> email_verified (users issued_db ! 0)"
    by (simp add: issued_db_eq example_db_def alice_def)
qed

text \<open>
  Claim C5. Every call of \<open>send_verification_email\<close> appends one token row whose code is
  the decimal string of the draw: six characters, all digits, with a value between 100000
  and 999999, and whose expiry is its creation time plus 15 minutes (900 seconds). The
  call returns that row or raises the mail error.
\<close>

theorem verification_code_shape:
  "\<exists>t. email_verification_tokens
          (snd (send_verification_email conf send_mail now r token_default s usr))
        = email_verification_tokens s @ [t]
      \<and> ev_code t = str (randint 100000 999999 r)
      \<and> length (ev_code t) = 6 \<and> isdigit (ev_code t)
      \<and> 100000 \<le> int_of_digits (ev_code t) \<and> int_of_digits (ev_code t) \<le> 999999
      \<and> ev_created_at t = now
      \<and> ev_expires_at t = ev_created_at t + 15 * 60
      \<and> (fst (send_verification_email conf send_mail now r token_default s usr)
            = Inr (length (email_verification_tokens s), t)
          \<or> (\<exists>e. fst (send_verification_email conf send_mail now r token_default s usr)
                 = Inl (SendMailError e)))"
  using code_six_digits [of r]
  by (cases "send_mail (verification_mail conf (snd usr) (str (randint 100000 999999 r)))")
     (simp_all add: send_verification_email_def Let_def timedelta_minutes_def)

text \<open>
  Claim C6. When the mail transport raises on the message of the call, the issuer of
  either kind re-raises that exception to its caller after printing it, and the token row
  created by the call is in the store.
\<close>

theorem dispatch_failure_reported:
  "(send_mail (verification_mail conf (snd usr) (str (randint 100000 999999 r))) = Some e
    \<longrightarrow> fst (send_verification_email conf send_mail now r token_default s usr)
          = Inl (SendMailError e)
        \<and> email_verification_tokens
            (snd (send_verification_email conf send_mail now r token_default s usr))
          = email_verification_tokens s @
              [\<lparr>ev_user = fst usr, ev_code = str (randint 100000 999999 r),
                ev_token = token_default, ev_created_at = now,
                ev_expires_at = now + timedelta_minutes 15, ev_is_used = False\<rparr>]
        \<and> stdout (snd (send_verification_email conf send_mail now r token_default s usr))
          = stdout s @ [''Error sending verification email: '' @ e])
   \<and> (send_mail (password_reset_mail conf (snd usr) (reset_link_of conf request token)) = Some e'
    \<longrightarrow> fst (send_password_reset_email conf send_mail now token request s usr)
          = Inl (SendMailError e')
        \<and> password_reset_tokens
            (snd (send_password_reset_email conf send_mail now token request s usr))
          = password_reset_tokens s @
              [\<lparr>pr_user = fst usr, pr_token = token, pr_created_at = now,
                pr_expires_at = now + timedelta_hours 1, pr_is_used = False\<rparr>]
        \<and> stdout (snd (send_password_reset_email conf send_mail now token request s usr))
          = stdout s @ [''Error sending password reset email: '' @ e'])"
proof (rule conjI; rule impI)
  assume "send_mail (verification_mail conf (snd usr) (str (randint 100000 999999 r))) = Some e"
  then show "fst (send_verification_email conf send_mail now r token_default s usr)
          = Inl (SendMailError e)
        \<and> email_verification_tokens
            (snd (send_verification_email conf send_mail now r token_default s usr))
          = email_verification_tokens s @
              [\<lparr>ev_user = fst usr, ev_code = str (randint 100000 999999 r),
                ev_token = token_default, ev_created_at = now,
                ev_expires_at = now + timedelta_minutes 15, ev_is_used = False\<rparr>]
        \<and> stdout (snd (send_verification_email conf send_mail now r token_default s usr))
          = stdout s @ [''Error sending verification email: '' @ e]"
    by (simp add: send_verification_email_def Let_def)
next
  assume "send_mail (password_reset_mail conf (snd usr) (reset_link_of conf request token))
            = Some e'"
  then show "fst (send_password_reset_email conf send_mail now token request s usr)
          = Inl (SendMailError e')
        \<and> password_reset_tokens
            (snd (send_password_reset_email conf send_mail now token request s usr))
          = password_reset_tokens s @
              [\<lparr>pr_user = fst usr, pr_token = token, pr_created_at = now,
                pr_expires_at = now + timedelta_hours 1, pr_is_used = False\<rparr>]
        \<and> stdout (snd (send_password_reset_email conf send_mail now token request s usr))
          = stdout s @ [''Error sending password reset email: '' @ e']"
    by (simp add: send_password_reset_email_def Let_def)
qed

text \<open>
  Claim C6 at a concrete input: both issuers called for Alice with the transport down.
\<close>

theorem dispatch_failure_reported_witness:
  "mail_down (verification_mail example_settings alice (str (randint 100000 999999 382913)))
     = Some ''Connection refused''
   \<and> fst (send_verification_email example_settings mail_down 1000 382913 None example_db (0, alice))
     = Inl (SendMailError ''Connection refused'')
   \<and> length (email_verification_tokens
        (snd (send_verification_email example_settings mail_down 1000 382913 None example_db
               (0, alice)))) = 3
   \<and> mail_down (password_reset_mail example_settings alice
                  (reset_link_of example_settings None ''3f2b8c1e''))
     = Some ''Connection refused''
   \<and> fst (send_password_reset_email example_settings mail_down 1000 ''3f2b8c1e'' None example_db
           (0, alice))
     = Inl (SendMailError ''Connection refused'')
   \<and> length (password_reset_tokens
        (snd (send_password_reset_email example_settings mail_down 1000 ''3f2b8c1e'' None
               example_db (0, alice)))) = 3"
proof -
  have v: "mail_down (verification_mail example_settings (snd (0::nat, alice))
              (str (randint 100000 999999 382913))) = Some ''Connection refused''"
    by (simp add: mail_down_def)
  have p: "mail_down (password_reset_mail example_settings (snd (0::nat, alice))
                  (reset_link_of example_settings None ''3f2b8c1e''))
     = Some ''Connection refused''"
    by (simp add: mail_down_def)
  have l: "length (email_verification_tokens example_db) = 2"
          "length (password_reset_tokens example_db) = 2"
    by (simp_all add: example_db_def)
  from v p l
    dispatch_failure_reported [of mail_down example_settings "(0, alice)" 382913
      "''Connection refused''" 1000 None example_db None "''3f2b8c1e''" "''Connection refused''"]
  show ?thesis by simp
qed

section \<open>Login and registration: claims\<close>

text \<open>
  Claim C7. Take any login request whose email belongs to no account and any login
  request whose email belongs to an account for which \<open>authenticate\<close> refuses the
  password, both with a non-empty email and password as the required fields deliver them.
  Both receive the same response: status 400 with the single message "Invalid email or
  password.". Moreover, on any validated attributes whatever, \<open>validate\<close> gives the same
  result in a store where the email is unknown and in one where it is known with a
  refused password.
\<close>

theorem login_failures_indistinguishable:
  "(run ''email'' (data1 ''email'') = Inr (Some e1)
      \<and> run ''password'' (data1 ''password'') = Inr (Some p1)
      \<and> run ''email'' (data2 ''email'') = Inr (Some e2)
      \<and> run ''password'' (data2 ''password'') = Inr (Some p2)
      \<and> e1 \<noteq> [] \<and> p1 \<noteq> [] \<and> e2 \<noteq> [] \<and> p2 \<noteq> []
      \<and> objects_get (\<lambda>u. email u = e1) (users s1) = Inl DoesNotExist
      \<and> objects_get (\<lambda>u. email u = e2) (users s2) = Inr pk
      \<and> authenticate fw (users s2) (username (users s2 ! pk)) p2 = None
    \<longrightarrow> fst (LoginView_post fw run s1 data1) =
          Inr (HTTP_400_BAD_REQUEST,
               JObject [(''error'', JList [JString ''Invalid email or password.''])])
        \<and> fst (LoginView_post fw run s2 data2) = fst (LoginView_post fw run s1 data1))
   \<and> (objects_get (\<lambda>u. email u = get_default attrs ''email'' []) us1 = Inl DoesNotExist
      \<and> objects_get (\<lambda>u. email u = get_default attrs ''email'' []) us2 = Inr pk'
      \<and> authenticate fw us2 (username (us2 ! pk')) (get_default attrs ''password'' []) = None
    \<longrightarrow> LoginSerializer_validate fw us1 attrs = LoginSerializer_validate fw us2 attrs)"
proof (rule conjI; rule impI)
  assume a: "run ''email'' (data1 ''email'') = Inr (Some e1)
      \<and> run ''password'' (data1 ''password'') = Inr (Some p1)
      \<and> run ''email'' (data2 ''email'') = Inr (Some e2)
      \<and> run ''password'' (data2 ''password'') = Inr (Some p2)
      \<and> e1 \<noteq> [] \<and> p1 \<noteq> [] \<and> e2 \<noteq> [] \<and> p2 \<noteq> []
      \<and> objects_get (\<lambda>u. email u = e1) (users s1) = Inl DoesNotExist
      \<and> objects_get (\<lambda>u. email u = e2) (users s2) = Inr pk
      \<and> authenticate fw (users s2) (username (users s2 ! pk)) p2 = None"
  then have one: "fst (LoginView_post fw run s1 data1) =
          Inr (HTTP_400_BAD_REQUEST,
               JObject [(''error'', JList [JString ''Invalid email or password.''])])"
    by (simp add: LoginView_post_def is_valid_def LoginSerializer_fields_def
        LoginSerializer_validate_def get_default_def errors_json_def)
  from a have two: "fst (LoginView_post fw run s2 data2) =
          Inr (HTTP_400_BAD_REQUEST,
               JObject [(''error'', JList [JString ''Invalid email or password.''])])"
    by (simp add: LoginView_post_def is_valid_def LoginSerializer_fields_def
        LoginSerializer_validate_def get_default_def errors_json_def)
  from one two show "fst (LoginView_post fw run s1 data1) =
          Inr (HTTP_400_BAD_REQUEST,
               JObject [(''error'', JList [JString ''Invalid email or password.''])])
        \<and> fst (LoginView_post fw run s2 data2) = fst (LoginView_post fw run s1 data1)"
    by simp
next
  assume "objects_get (\<lambda>u. email u = get_default attrs ''email'' []) us1 = Inl DoesNotExist
      \<and> objects_get (\<lambda>u. email u = get_default attrs ''email'' []) us2 = Inr pk'
      \<and> authenticate fw us2 (username (us2 ! pk')) (get_default attrs ''password'' []) = None"
  then show "LoginSerializer_validate fw us1 attrs = LoginSerializer_validate fw us2 attrs"
    by (simp add: LoginSerializer_validate_def Let_def)
qed

text \<open>
  Claim C7 at a concrete input: an unknown address and Alice's address with a wrong
  password.
\<close>

theorem login_failures_indistinguishable_witness:
  "LoginSerializer_run_validation login_validators ''email'' (login_unknown ''email'') = Inr (Some ''nobody@example.com'')
   \<and> LoginSerializer_run_validation login_validators ''password'' (login_unknown ''password'') = Inr (Some ''alice'')
   \<and> LoginSerializer_run_validation login_validators ''email'' (login_wrong_password ''email'') = Inr (Some ''alice@example.com'')
   \<and> LoginSerializer_run_validation login_validators ''password'' (login_wrong_password ''password'') = Inr (Some ''guess'')
   \<and> objects_get (\<lambda>u. email u = ''nobody@example.com'') (users example_db) = Inl DoesNotExist
   \<and> objects_get (\<lambda>u. email u = ''alice@example.com'') (users example_db) = Inr 0
   \<and> authenticate example_framework (users example_db) (username (users example_db ! 0))
        ''guess'' = None
   \<and> fst (LoginView_post example_framework (LoginSerializer_run_validation login_validators) example_db login_unknown) =
       Inr (HTTP_400_BAD_REQUEST,
            JObject [(''error'', JList [JString ''Invalid email or password.''])])
   \<and> fst (LoginView_post example_framework (LoginSerializer_run_validation login_validators) example_db login_wrong_password) =
       fst (LoginView_post example_framework (LoginSerializer_run_validation login_validators) example_db login_unknown)
   \<and> LoginSerializer_validate example_framework [] [(''email'', ''alice@example.com''), (''password'', ''guess'')]
     = LoginSerializer_validate example_framework (users example_db)
         [(''email'', ''alice@example.com''), (''password'', ''guess'')]"
proof -
  have h: "LoginSerializer_run_validation login_validators ''email'' (login_unknown ''email'') = Inr (Some ''nobody@example.com'')
   \<and> LoginSerializer_run_validation login_validators ''password'' (login_unknown ''password'') = Inr (Some ''alice'')
   \<and> LoginSerializer_run_validation login_validators ''email'' (login_wrong_password ''email'') = Inr (Some ''alice@example.com'')
   \<and> LoginSerializer_run_validation login_validators ''password'' (login_wrong_password ''password'') = Inr (Some ''guess'')
   \<and> objects_get (\<lambda>u. email u = ''nobody@example.com'') (users example_db) = Inl DoesNotExist
   \<and> objects_get (\<lambda>u. email u = ''alice@example.com'') (users example_db) = Inr 0
   \<and> authenticate example_framework (users example_db) (username (users example_db ! 0))
        ''guess'' = None"
    by code_simp
  have g: "objects_get (\<lambda>u. email u = ''alice@example.com'') ([] :: User list) = Inl DoesNotExist"
    by code_simp
  have a: "get_default [(''email'', ''alice@example.com''), (''password'', ''guess'')] ''email'' []
             = ''alice@example.com''
         \<and> get_default [(''email'', ''alice@example.com''), (''password'', ''guess'')] ''password'' []
             = ''guess''"
    by code_simp
  from h g a
    login_failures_indistinguishable [of "LoginSerializer_run_validation login_validators"
      login_unknown "''nobody@example.com''"
      "''alice''" login_wrong_password "''alice@example.com''" "''guess''" example_db example_db 0
      example_framework "[(''email'', ''alice@example.com''), (''password'', ''guess'')]"
      "[]" "users example_db" 0]
  show ?thesis by simp
qed

text \<open>
  Claim C8 as stated fails. The request below has two different passwords and the email
  of Bob's account. The email field rejects the address, and the response carries that
  message alone and no password-mismatch error, because \<open>validate\<close> is not run once a
  field has failed.
\<close>

theorem mismatch_hidden_by_field_error:
  "register_taken_email ''password'' \<noteq> register_taken_email ''password2''
   \<and> RegisterView_post example_framework
         (UserRegistrationSerializer_run_validation registration_validators (users example_db))
         example_db register_taken_email =
       (Inr (400,
             JObject [(''email'', JList [JString ''user with this email already exists.''])]),
        example_db)"
  by code_simp

text \<open>
  Claim C8, as amended. Let field validation of a registration request give the errors
  \<open>errors\<close> and the validated attributes \<open>attrs\<close>. If there are no field errors and the two
  validated passwords differ, the response is status 400 with exactly the
  password-mismatch error; if there are field errors, the response is status 400 with
  those errors. In both cases the store is unchanged.
\<close>

theorem password_mismatch_rejected:
  assumes "to_internal_value run (UserRegistrationSerializer_validate_method (users s)) data
             UserRegistrationSerializer_fields = (errors, attrs)"
  shows "(errors = [] \<and> map_of attrs ''password'' = Some p \<and> map_of attrs ''password2'' = Some p2
            \<and> p \<noteq> p2
          \<longrightarrow> RegisterView_post fw run s data =
                (Inr (HTTP_400_BAD_REQUEST,
                      errors_json [(''password'', [''Password fields didn't match.''])]), s))
       \<and> (errors \<noteq> []
          \<longrightarrow> RegisterView_post fw run s data =
                (Inr (HTTP_400_BAD_REQUEST, errors_json errors), s))"
  using assms
  by (simp add: RegisterView_post_def is_valid_def UserRegistrationSerializer_validate_def)

text \<open>
  Claim C8 at concrete inputs, with the fields the serializer declares: a request with a
  fresh email and different passwords, and the request with Bob's email.
\<close>

theorem password_mismatch_rejected_witness:
  "to_internal_value
     (UserRegistrationSerializer_run_validation registration_validators (users example_db))
     (UserRegistrationSerializer_validate_method (users example_db))
     register_new_email UserRegistrationSerializer_fields =
     ([], [(''username'', ''carol''), (''email'', ''carol@example.com''),
           (''password'', ''correct horse''), (''password2'', ''battery staple'')])
   \<and> ''correct horse'' \<noteq> ''battery staple''
   \<and> RegisterView_post example_framework
         (UserRegistrationSerializer_run_validation registration_validators (users example_db))
         example_db register_new_email =
       (Inr (HTTP_400_BAD_REQUEST,
             errors_json [(''password'', [''Password fields didn't match.''])]), example_db)
   \<and> to_internal_value
         (UserRegistrationSerializer_run_validation registration_validators (users example_db))
         (UserRegistrationSerializer_validate_method (users example_db))
         register_taken_email UserRegistrationSerializer_fields =
       ([(''email'', [''user with this email already exists.''])],
        [(''username'', ''robert''), (''password'', ''correct horse''),
         (''password2'', ''battery staple'')])
   \<and> RegisterView_post example_framework
         (UserRegistrationSerializer_run_validation registration_validators (users example_db))
         example_db register_taken_email =
       (Inr (HTTP_400_BAD_REQUEST,
             errors_json [(''email'', [''user with this email already exists.''])]),
        example_db)"
proof -
  let ?run = "UserRegistrationSerializer_run_validation registration_validators (users example_db)"
  have n: "to_internal_value ?run
       (UserRegistrationSerializer_validate_method (users example_db))
       register_new_email UserRegistrationSerializer_fields =
     ([], [(''username'', ''carol''), (''email'', ''carol@example.com''),
           (''password'', ''correct horse''), (''password2'', ''battery staple'')])"
    by code_simp
  have t: "to_internal_value ?run
       (UserRegistrationSerializer_validate_method (users example_db))
       register_taken_email UserRegistrationSerializer_fields =
       ([(''email'', [''user with this email already exists.''])],
        [(''username'', ''robert''), (''password'', ''correct horse''),
         (''password2'', ''battery staple'')])"
    by code_simp
  from n t
    password_mismatch_rejected [OF n, of "''correct horse''" "''battery staple''"
      example_framework]
    password_mismatch_rejected [OF t, of "''correct horse''" "''battery staple''"
      example_framework]
  show ?thesis by simp
qed



end
